theory Spec2Isabelle
  imports Main
begin

section \<open>Subdomain enumeration tool: a shallow embedding of \<open>Subdomain_Enumeration_Tool.py\<close>\<close>

text \<open>
  The script is a Streamlit page. Its helper functions talk to the network, the file
  system, a subprocess and the DNS; the scan block of the page runs them on a thread pool
  and folds their results into the session state. Everything the helpers read from
  outside is gathered in one record, the environment, so that each helper is a function
  of the environment and its arguments. Exceptions are values: a call returns
  \<open>Inl e\<close> when the Python raises \<open>e\<close> and \<open>Inr v\<close> when it returns \<open>v\<close>.
\<close>

subsection \<open>Strings\<close>

text \<open>
  A Python \<open>str\<close> is modelled as a \<open>string\<close> whose characters are the code points
  below 256. \<open>str.strip()\<close> removes the characters for which \<open>str.isspace\<close> holds;
  below 256 these are 9 to 13, 28 to 32, 133 and 160.
\<close>

definition isspace :: "char \<Rightarrow> bool" where
  "isspace c =
     (c \<in> set [CHR 0x09, CHR 0x0A, CHR 0x0B, CHR 0x0C, CHR 0x0D,
                CHR 0x1C, CHR 0x1D, CHR 0x1E, CHR 0x1F, CHR 0x20, CHR 0x85, CHR 0xA0])"

definition strip :: "string \<Rightarrow> string" where
  "strip s = rev (dropWhile isspace (rev (dropWhile isspace s)))"

text \<open>\<open>s.split(sep)\<close> for a one-character separator: never an empty list.\<close>

fun split_on :: "char \<Rightarrow> string \<Rightarrow> string list" where
  "split_on sep [] = [[]]"
| "split_on sep (c # cs) =
     (if c = sep then [] # split_on sep cs
      else (case split_on sep cs of
              p # ps \<Rightarrow> (c # p) # ps
            | [] \<Rightarrow> [[c]]))"

text \<open>\<open>str(n)\<close> for an integer, as the f-strings of the log lines format it.\<close>

definition digit_char :: "nat \<Rightarrow> char" where
  "digit_char d = char_of (48 + d)"

fun str_of_nat :: "nat \<Rightarrow> string" where
  "str_of_nat n =
     (if n < 10 then [digit_char n] else str_of_nat (n div 10) @ [digit_char (n mod 10)])"

declare str_of_nat.simps [simp del]

definition str_of_int :: "int \<Rightarrow> string" where
  "str_of_int i = (if i < 0 then CHR ''-'' # str_of_nat (nat (- i)) else str_of_nat (nat i))"

subsection \<open>Exceptions and the environment\<close>

text \<open>An exception: its class name and \<open>str(e)\<close>.\<close>

datatype pyexn = PyExn (exn_class: string) (exn_str: string)

text \<open>
  The value of \<open>r.json()\<close>. A number keeps its literal: no branch of the script
  depends on its value. An object lists its items; \<open>map_of\<close> is the lookup.
\<close>

datatype json =
    JNull
  | JBool bool
  | JNumber string
  | JString string
  | JArray "json list"
  | JObject "(string \<times> json) list"

text \<open>
  A response of \<open>requests.get\<close>: the status code, and what \<open>r.json()\<close> does
  (it raises on a body that is not JSON).
\<close>

record response =
  status_code :: int
  json_body :: "pyexn + json"

text \<open>
  What \<open>open(path, "r")\<close> followed by reading the lines does: there is no such file
  (FileNotFoundError), opening or decoding fails with another exception, or the lines
  come out, each as the iteration over the file yields it (with its line end).
\<close>

datatype file_outcome =
    NoSuchFile
  | Unreadable pyexn
  | Lines "string list"

text \<open>
  What \<open>subprocess.run(..., capture_output=True, text=True, timeout=120)\<close> leaves
  when it returns: the lines of the captured standard output, as
  \<open>result.stdout.splitlines()\<close> yields them, and the state of \<open>subdomains.txt\<close>
  after the run.
\<close>

record proc_result =
  stdout_lines :: "string list"
  output_file :: file_outcome

text \<open>What \<open>resolver.resolve(name, "A", lifetime=3)\<close> does.\<close>

datatype dns_outcome =
    Answer
  | NXDOMAIN
  | LifetimeTimeout
  | NoNameservers
  | OtherDnsFailure pyexn

record env =
  http_get :: "string \<Rightarrow> pyexn + response"
  path_exists :: "string \<Rightarrow> bool"
  run_process :: "string list \<Rightarrow> pyexn + proc_result"
  open_read :: "string \<Rightarrow> file_outcome"
  new_resolver :: "pyexn option"
  resolve_a :: "string \<Rightarrow> dns_outcome"
  utcnow :: "nat \<Rightarrow> string"

text \<open>
  \<open>http_get\<close> is \<open>requests.get(url, timeout=15)\<close>; \<open>path_exists\<close> is
  \<open>os.path.exists\<close> before any subprocess has run; \<open>new_resolver\<close> is
  \<open>dns.resolver.Resolver()\<close>, which raises when the host has no resolver
  configuration; \<open>utcnow k\<close> is the \<open>%H:%M:%S\<close> rendering of the \<open>k\<close>-th reading
  of the clock.
\<close>

subsection \<open>\<open>get_subdomains_crtsh\<close>\<close>

definition newline :: char where
  "newline = CHR 0x0A"

definition crtsh_url :: "string \<Rightarrow> string" where
  "crtsh_url domain = ''https://crt.sh/?q=%25.'' @ domain @ ''&output=json''"

text \<open>
  A Python set of strings is kept as a list without repetition, in insertion order
  (the order of \<open>list(results)\<close> is not fixed by Python; the callers use the
  elements only). \<open>set_add\<close> is \<open>results.add(n)\<close>.
\<close>

definition set_add :: "string list \<Rightarrow> string \<Rightarrow> string list" where
  "set_add results n = (if n \<in> set results then results else results @ [n])"

text \<open>The inner loop: \<open>for n in nv.split("\n"): n = n.strip(); if n: results.add(n)\<close>.\<close>

fun add_names :: "string list \<Rightarrow> string list \<Rightarrow> string list" where
  "add_names results [] = results"
| "add_names results (n # ns) =
     (let n' = strip n in
      if n' \<noteq> [] then add_names (set_add results n') ns else add_names results ns)"

text \<open>
  \<open>entry.get("name_value", "")\<close>: only a dict has \<open>get\<close>; every other value
  raises AttributeError.
\<close>

definition entry_get_name_value :: "json \<Rightarrow> pyexn + json" where
  "entry_get_name_value entry =
     (case entry of
        JObject items \<Rightarrow>
          (case map_of items ''name_value'' of
             None \<Rightarrow> Inr (JString [])
           | Some v \<Rightarrow> Inr v)
      | _ \<Rightarrow> Inl (PyExn ''AttributeError'' ''object has no attribute get''))"

text \<open>\<open>nv.split("\n")\<close>: only a string has \<open>split\<close>.\<close>

definition nv_split :: "json \<Rightarrow> pyexn + string list" where
  "nv_split nv =
     (case nv of
        JString s \<Rightarrow> Inr (split_on newline s)
      | _ \<Rightarrow> Inl (PyExn ''AttributeError'' ''object has no attribute split''))"

text \<open>The outer loop \<open>for entry in data\<close>, the set \<open>results\<close> threaded through.\<close>

fun collect_entries :: "string list \<Rightarrow> json list \<Rightarrow> pyexn + string list" where
  "collect_entries results [] = Inr results"
| "collect_entries results (entry # entries) =
     (case entry_get_name_value entry of
        Inl e \<Rightarrow> Inl e
      | Inr nv \<Rightarrow>
          (case nv_split nv of
             Inl e \<Rightarrow> Inl e
           | Inr pieces \<Rightarrow> collect_entries (add_names results pieces) entries))"

text \<open>
  What \<open>for entry in data\<close> iterates over: the elements of a list, the keys of a
  dict, the characters of a string; the other values are not iterable (TypeError).
\<close>

definition iterate :: "json \<Rightarrow> pyexn + json list" where
  "iterate data =
     (case data of
        JArray entries \<Rightarrow> Inr entries
      | JObject items \<Rightarrow> Inr (map JString (remdups (map fst items)))
      | JString s \<Rightarrow> Inr (map (\<lambda>c. JString [c]) s)
      | _ \<Rightarrow> Inl (PyExn ''TypeError'' ''object is not iterable''))"

text \<open>The body of the \<open>try\<close>, lines 46 to 58.\<close>

definition crtsh_try :: "env \<Rightarrow> string \<Rightarrow> pyexn + string list" where
  "crtsh_try w url =
     (case http_get w url of
        Inl e \<Rightarrow> Inl e
      | Inr r \<Rightarrow>
          if status_code r \<noteq> 200 then Inr []
          else (case json_body r of
                  Inl e \<Rightarrow> Inl e
                | Inr data \<Rightarrow>
                    (case iterate data of
                       Inl e \<Rightarrow> Inl e
                     | Inr entries \<Rightarrow> collect_entries [] entries)))"

text \<open>The function: \<open>except Exception: return []\<close> around the body.\<close>

definition get_subdomains_crtsh :: "env \<Rightarrow> string \<Rightarrow> pyexn + string list" where
  "get_subdomains_crtsh w domain =
     (case crtsh_try w (crtsh_url domain) of
        Inl e \<Rightarrow> Inr []
      | Inr names \<Rightarrow> Inr names)"

subsection \<open>\<open>get_subdomains_sublister\<close>\<close>

definition script_path :: string where
  "script_path = ''Sublist3r/sublist3r.py''"

definition sublister_argv :: "string \<Rightarrow> string list" where
  "sublister_argv domain =
     [''python'', script_path, ''-d'', domain, ''-o'', ''subdomains.txt'']"

text \<open>The comprehension \<open>[l.strip() for l in ls if l.strip()]\<close>.\<close>

definition stripped_lines :: "string list \<Rightarrow> string list" where
  "stripped_lines ls = map strip (filter (\<lambda>l. strip l \<noteq> []) ls)"

text \<open>The body of the \<open>try\<close>, lines 68 to 75.\<close>

definition sublister_try :: "env \<Rightarrow> string \<Rightarrow> pyexn + string list" where
  "sublister_try w domain =
     (case run_process w (sublister_argv domain) of
        Inl e \<Rightarrow> Inl e
      | Inr result \<Rightarrow>
          (case output_file result of
             Lines ls \<Rightarrow> Inr (stripped_lines ls)
           | Unreadable e \<Rightarrow> Inl e
           | NoSuchFile \<Rightarrow> Inr (stripped_lines (stdout_lines result))))"

text \<open>
  The function returns its value together with the argument vectors of the calls of
  \<open>subprocess.run\<close> it made, in order: the second component is what the call did to
  the process table.
\<close>

definition get_subdomains_sublister ::
  "env \<Rightarrow> string \<Rightarrow> (pyexn + string list) \<times> string list list" where
  "get_subdomains_sublister w domain =
     (if \<not> path_exists w script_path then (Inr [], [])
      else (case sublister_try w domain of
              Inl e \<Rightarrow> (Inr [], [sublister_argv domain])
            | Inr names \<Rightarrow> (Inr names, [sublister_argv domain])))"

subsection \<open>\<open>brute_force_subdomains\<close>\<close>

definition default_wordlist :: string where
  "default_wordlist = ''common_subdomains.txt''"

text \<open>
  The loop over the lines of the wordlist, lines 85 to 94, with \<open>found\<close> threaded
  through. Every outcome of the lookup but an answer is an exception, which the inner
  \<open>except Exception: pass\<close> drops.
\<close>

fun resolve_lines :: "env \<Rightarrow> string \<Rightarrow> string list \<Rightarrow> string list \<Rightarrow> string list" where
  "resolve_lines w domain found [] = found"
| "resolve_lines w domain found (line # rest) =
     (let sub = strip line in
      if sub = [] then resolve_lines w domain found rest
      else (let full = sub @ ''.'' @ domain in
            case resolve_a w full of
              Answer \<Rightarrow> resolve_lines w domain (found @ [full]) rest
            | _ \<Rightarrow> resolve_lines w domain found rest))"

text \<open>
  The resolver is built before the \<open>try\<close>, so its failure leaves the function. Of
  the failures of \<open>open\<close> only FileNotFoundError is caught (\<open>pass\<close>, then
  \<open>return found\<close> with \<open>found\<close> still empty); any other leaves the function.
\<close>

definition brute_force_subdomains :: "env \<Rightarrow> string \<Rightarrow> string \<Rightarrow> pyexn + string list" where
  "brute_force_subdomains w domain wordlist =
     (case new_resolver w of
        Some e \<Rightarrow> Inl e
      | None \<Rightarrow>
          (case open_read w wordlist of
             Lines ls \<Rightarrow> Inr (resolve_lines w domain [] ls)
           | NoSuchFile \<Rightarrow> Inr []
           | Unreadable e \<Rightarrow> Inl e))"

subsection \<open>The thread pool\<close>

text \<open>
  The values the scan block hands to \<open>executor.submit\<close>: strings, tuples and the
  three helper functions.
\<close>

datatype helper = GetSubdomainsCrtsh | GetSubdomainsSublister | BruteForceSubdomains

datatype pyval = Str string | Tuple "pyval list" | Function helper

text \<open>
  \<open>fn(*args)\<close> as a worker thread evaluates it. Only a function can be called: for
  any other value Python raises TypeError, with the name of the value's type in the
  message. The scan block passes one string to a helper (the wordlist of the third has
  its default); any other argument list is reported as a TypeError too.
\<close>

definition type_name :: "pyval \<Rightarrow> string" where
  "type_name v = (case v of Str s \<Rightarrow> ''str'' | Tuple xs \<Rightarrow> ''tuple'' | Function h \<Rightarrow> ''function'')"

definition not_callable :: "pyval \<Rightarrow> pyexn" where
  "not_callable v =
     PyExn ''TypeError'' ([CHR 0x27] @ type_name v @ [CHR 0x27] @ '' object is not callable'')"

definition call :: "env \<Rightarrow> pyval \<Rightarrow> pyval list \<Rightarrow> pyexn + string list" where
  "call w fn args =
     (case fn of
        Function h \<Rightarrow>
          (case args of
             [Str domain] \<Rightarrow>
               (case h of
                  GetSubdomainsCrtsh \<Rightarrow> get_subdomains_crtsh w domain
                | GetSubdomainsSublister \<Rightarrow> fst (get_subdomains_sublister w domain)
                | BruteForceSubdomains \<Rightarrow> brute_force_subdomains w domain default_wordlist)
           | _ \<Rightarrow> Inl (PyExn ''TypeError'' ''wrong arguments''))
      | _ \<Rightarrow> Inl (not_callable fn))"

text \<open>
  A future is what \<open>fut.result()\<close> will do: return the value of the call or raise
  its exception. \<open>executor.submit(fn, *args)\<close> never raises by itself: the worker
  stores whatever the call does in the future. The environment fixes what each helper
  returns, so the order in which the workers run the calls does not show.
\<close>

type_synonym future = "pyexn + string list"

definition submit :: "env \<Rightarrow> pyval \<Rightarrow> pyval list \<Rightarrow> future" where
  "submit w fn args = call w fn args"

subsection \<open>The scan block\<close>

record config =
  domains :: "string list"
  use_crtsh :: bool
  use_sublister :: bool
  use_brute :: bool
  max_workers :: nat

text \<open>
  The state of one run of the page: the two entries of \<open>st.session_state\<close>, the
  number of readings of the clock so far, and the local variables of the scan block
  (\<open>done_count\<close> is the variable \<open>done\<close>). The percentage handed to the progress
  bar, \<open>int(done / total_tasks * 100)\<close>, is a floating-point quotient and is not
  modelled; inside the loop \<open>total_tasks\<close> is at least one and \<open>done\<close> at most
  \<open>total_tasks\<close>, so the call gets a number from 0 to 100 and does not raise.
\<close>

record scan_state =
  results :: "string set"
  logs :: "string list"
  clock_reads :: nat
  total_tasks :: nat
  completed :: nat
  done_count :: nat

definition log :: "env \<Rightarrow> string \<Rightarrow> scan_state \<Rightarrow> scan_state" where
  "log w msg s =
     s\<lparr>logs := logs s @ [''['' @ utcnow w (clock_reads s) @ '' UTC] '' @ msg],
       clock_reads := Suc (clock_reads s)\<rparr>"

text \<open>The first scheduling loop, lines 179 to 185: one iteration, then the loop.\<close>

definition schedule_labelled :: "env \<Rightarrow> config \<Rightarrow> future list \<Rightarrow> string \<Rightarrow> future list" where
  "schedule_labelled w cfg futures domain =
     (let futures1 =
            (if use_crtsh cfg
             then futures @ [submit w (Tuple [Str ''crtsh'', Str domain])
                               [Function GetSubdomainsCrtsh, Str domain]]
             else futures);
          futures2 =
            (if use_sublister cfg
             then futures1 @ [submit w (Tuple [Str ''sublister'', Str domain])
                                [Function GetSubdomainsSublister, Str domain]]
             else futures1)
      in if use_brute cfg
         then futures2 @ [submit w (Tuple [Str ''brute'', Str domain])
                            [Function BruteForceSubdomains, Str domain]]
         else futures2)"

definition first_block :: "env \<Rightarrow> config \<Rightarrow> future list" where
  "first_block w cfg = foldl (schedule_labelled w cfg) [] (domains cfg)"

text \<open>
  The second scheduling loop, lines 195 to 204: a task is the label, the domain and
  the future; \<open>total_tasks\<close> counts them.
\<close>

type_synonym task = "string \<times> string \<times> future"

definition schedule_tasks ::
  "env \<Rightarrow> config \<Rightarrow> task list \<times> nat \<Rightarrow> string \<Rightarrow> task list \<times> nat" where
  "schedule_tasks w cfg acc domain =
     (let (tasks, n) = acc;
          (tasks1, n1) =
            (if use_crtsh cfg
             then (tasks @ [(''crtsh'', domain,
                             submit w (Function GetSubdomainsCrtsh) [Str domain])], n + 1)
             else (tasks, n));
          (tasks2, n2) =
            (if use_sublister cfg
             then (tasks1 @ [(''sublister'', domain,
                              submit w (Function GetSubdomainsSublister) [Str domain])], n1 + 1)
             else (tasks1, n1))
      in if use_brute cfg
         then (tasks2 @ [(''brute'', domain,
                          submit w (Function BruteForceSubdomains) [Str domain])], n2 + 1)
         else (tasks2, n2))"

definition build_tasks :: "env \<Rightarrow> config \<Rightarrow> task list \<times> nat" where
  "build_tasks w cfg = foldl (schedule_tasks w cfg) ([], 0) (domains cfg)"

text \<open>One iteration of the loop over \<open>tasks\<close>, lines 209 to 223.\<close>

definition handle_task :: "env \<Rightarrow> task \<Rightarrow> scan_state \<Rightarrow> scan_state" where
  "handle_task w t s =
     (let (label, domain, fut) = t;
          (result, s1) =
            (case fut of
               Inr r \<Rightarrow> (r, s)
             | Inl e \<Rightarrow> ([], log w (''ERROR '' @ label @ '' '' @ domain @ '': '' @ exn_str e) s));
          s2 =
            (if result \<noteq> [] then
               (let added_before = card (results s1);
                    s1' = s1\<lparr>results := results s1 \<union> set result\<rparr>;
                    added_after = card (results s1');
                    new = int added_after - int added_before
                in log w (''['' @ label @ ''] '' @ domain @ '' -> '' @ str_of_int new
                          @ '' new subdomains'') s1')
             else log w (''['' @ label @ ''] '' @ domain @ '' -> 0'') s1)
      in s2\<lparr>done_count := done_count s2 + 1\<rparr>)"

fun handle_tasks :: "env \<Rightarrow> task list \<Rightarrow> scan_state \<Rightarrow> scan_state" where
  "handle_tasks w [] s = s"
| "handle_tasks w (t # ts) s = handle_tasks w ts (handle_task w t s)"

definition enabled_count :: "config \<Rightarrow> nat" where
  "enabled_count cfg =
     (if use_crtsh cfg then 1 else 0) + (if use_sublister cfg then 1 else 0)
       + (if use_brute cfg then 1 else 0)"

text \<open>Lines 170 to 175: the reset, the first count, the start entry.\<close>

definition scan_prologue :: "env \<Rightarrow> config \<Rightarrow> scan_state \<Rightarrow> scan_state" where
  "scan_prologue w cfg s =
     log w ''Scan started''
       (s\<lparr>results := {}, logs := [],
          total_tasks := length (domains cfg) * enabled_count cfg,
          completed := 0\<rparr>)"

text \<open>
  Lines 189 to 226: the second reset, the task list, the loop over it, the end entry.
\<close>

definition second_block :: "env \<Rightarrow> config \<Rightarrow> scan_state \<Rightarrow> scan_state" where
  "second_block w cfg s =
     (let s1 = s\<lparr>logs := [], results := {}, total_tasks := 0\<rparr>;
          (tasks, n) = build_tasks w cfg;
          s2 = s1\<lparr>total_tasks := n, done_count := 0\<rparr>;
          s3 = handle_tasks w tasks s2
      in log w ''Scan completed'' s3)"

text \<open>The scan as the file has it: lines 170 to 226, the first block included.\<close>

definition scan :: "env \<Rightarrow> config \<Rightarrow> scan_state \<Rightarrow> scan_state" where
  "scan w cfg s =
     (let s1 = scan_prologue w cfg s;
          futures = first_block w cfg
      in second_block w cfg s1)"

text \<open>
  Lines 191 to 226 alone: the corrected scheduling block without the two resets that
  stand before it.
\<close>

definition corrected_block :: "env \<Rightarrow> config \<Rightarrow> scan_state \<Rightarrow> scan_state" where
  "corrected_block w cfg s =
     (let s1 = s\<lparr>total_tasks := 0\<rparr>;
          (tasks, n) = build_tasks w cfg;
          s2 = s1\<lparr>total_tasks := n, done_count := 0\<rparr>;
          s3 = handle_tasks w tasks s2
      in log w ''Scan completed'' s3)"


text \<open>Pressing the button, lines 166 to 227: no domain is an input error, no scan.\<close>

datatype run_outcome = InputError string | Finished scan_state

definition run_button :: "env \<Rightarrow> config \<Rightarrow> scan_state \<Rightarrow> run_outcome" where
  "run_button w cfg s =
     (if domains cfg = [] then InputError ''Please enter at least one domain.''
      else Finished (scan w cfg s))"

subsection \<open>The names of an answer, as the specification reads them\<close>

text \<open>
  These definitions are not taken from the script; the properties of
  \<open>get_subdomains_crtsh\<close> are stated against them. \<open>name_value_of\<close> is the text
  of the field \<open>name_value\<close> of an entry that is an object (the empty text when the
  field is absent), and nothing for an entry that is no object or whose field is no
  string. \<open>name_values\<close> are the texts of all entries of a response with status 200
  whose body is an array of such entries, and nothing for any other response.
\<close>

definition name_value_of :: "json \<Rightarrow> string option" where
  "name_value_of entry =
     (case entry of
        JObject items \<Rightarrow>
          (case map_of items ''name_value'' of
             None \<Rightarrow> Some []
           | Some (JString s) \<Rightarrow> Some s
           | Some _ \<Rightarrow> None)
      | _ \<Rightarrow> None)"

definition name_values :: "response \<Rightarrow> string list option" where
  "name_values r =
     (if status_code r = 200
      then (case json_body r of
              Inr (JArray entries) \<Rightarrow> those (map name_value_of entries)
            | _ \<Rightarrow> None)
      else None)"

text \<open>
  The sentence of the specification, word by word: every text is split at the
  newlines, every piece is trimmed, and the pieces are collected in a set.
\<close>

definition split_trim_dedup :: "string list \<Rightarrow> string set" where
  "split_trim_dedup nvs = (\<Union>nv \<in> set nvs. strip ` set (split_on newline nv))"

subsection \<open>Environments and settings of the examples\<close>

text \<open>The clock of the examples shows a new second at every reading.\<close>

definition clock :: "nat \<Rightarrow> string" where
  "clock k = ''12:00:0'' @ str_of_nat k"

text \<open>
  A host that is offline: no request gets through, no file exists, no process starts,
  no name resolves.
\<close>

definition offline_env :: env where
  "offline_env =
     \<lparr>http_get = (\<lambda>url. Inl (PyExn ''ConnectionError'' ''connection refused'')),
      path_exists = (\<lambda>p. False),
      run_process = (\<lambda>argv. Inl (PyExn ''FileNotFoundError'' ''python'')),
      open_read = (\<lambda>p. NoSuchFile),
      new_resolver = None,
      resolve_a = (\<lambda>name. NXDOMAIN),
      utcnow = clock\<rparr>"

definition serve :: "string \<Rightarrow> response \<Rightarrow> env" where
  "serve url r =
     offline_env\<lparr>http_get := (\<lambda>u. if u = url then Inr r else http_get offline_env u)\<rparr>"

text \<open>The mocked answer of the scenario of the specification: two entries.\<close>

definition ct_two_entries :: json where
  "ct_two_entries =
     JArray [JObject [(''name_value'', JString (''a.example.com'' @ [newline] @ ''b.example.com''))],
             JObject [(''name_value'', JString ''c.example.com'')]]"

definition ct_env :: env where
  "ct_env = serve (crtsh_url ''example.com'') \<lparr>status_code = 200, json_body = Inr ct_two_entries\<rparr>"

text \<open>An answer whose only entry ends with a newline.\<close>

definition ct_trailing_newline :: json where
  "ct_trailing_newline = JArray [JObject [(''name_value'', JString (''a.example.com'' @ [newline]))]]"

definition ct_trailing_env :: env where
  "ct_trailing_env =
     serve (crtsh_url ''example.com'') \<lparr>status_code = 200, json_body = Inr ct_trailing_newline\<rparr>"

text \<open>A server error with a well-formed body, and a success whose body is not JSON.\<close>

definition ct_unavailable_env :: env where
  "ct_unavailable_env =
     serve (crtsh_url ''example.com'') \<lparr>status_code = 503, json_body = Inr ct_two_entries\<rparr>"

definition ct_garbled_env :: env where
  "ct_garbled_env =
     serve (crtsh_url ''example.com'')
       \<lparr>status_code = 200,
        json_body = Inl (PyExn ''JSONDecodeError'' ''Expecting value: line 1 column 1 (char 0)'')\<rparr>"

text \<open>
  A wordlist of six lines, one of them blank; \<open>www\<close> and \<open>api\<close> resolve, the
  lookups of the others fail in three different ways.
\<close>

definition six_lines :: "string list" where
  "six_lines =
     [''www'' @ [newline], [newline], ''mail'' @ [newline], ''  dev '' @ [newline],
      ''ns'' @ [newline], ''api'']"

definition wordlist_env :: env where
  "wordlist_env =
     offline_env
       \<lparr>open_read := (\<lambda>p. if p = default_wordlist then Lines six_lines else NoSuchFile),
        resolve_a := (\<lambda>name.
           if name = ''www.example.com'' \<or> name = ''api.example.com'' then Answer
           else if name = ''dev.example.com'' then LifetimeTimeout
           else if name = ''ns.example.com'' then NoNameservers
           else NXDOMAIN)\<rparr>"

text \<open>A wordlist that is there and readable, on a host where no name resolves.\<close>

definition no_hit_env :: env where
  "no_hit_env =
     offline_env\<lparr>open_read := (\<lambda>p. if p = default_wordlist then Lines six_lines else NoSuchFile)\<rparr>"

text \<open>
  A wordlist that is there but may not be read: \<open>open\<close> raises PermissionError,
  whose text names the file between single quotes.
\<close>

definition permission_denied :: string where
  "permission_denied =
     ''[Errno 13] Permission denied: '' @ [CHR 0x27] @ ''common_subdomains.txt'' @ [CHR 0x27]"

definition unreadable_env :: env where
  "unreadable_env =
     offline_env
       \<lparr>open_read := (\<lambda>p. if p = default_wordlist
                              then Unreadable (PyExn ''PermissionError'' permission_denied)
                              else NoSuchFile)\<rparr>"

definition only_crtsh :: "string list \<Rightarrow> config" where
  "only_crtsh ds =
     \<lparr>domains = ds, use_crtsh = True, use_sublister = False, use_brute = False, max_workers = 3\<rparr>"

definition only_brute :: "string list \<Rightarrow> config" where
  "only_brute ds =
     \<lparr>domains = ds, use_crtsh = False, use_sublister = False, use_brute = True, max_workers = 3\<rparr>"

text \<open>The page before its first scan.\<close>

definition fresh_page :: scan_state where
  "fresh_page =
     \<lparr>results = {}, logs = [], clock_reads = 0, total_tasks = 0, completed = 0, done_count = 0\<rparr>"

section \<open>Properties\<close>

subsection \<open>The brute-force probe\<close>

text \<open>The loop is a filter: it keeps the order of the wordlist.\<close>

lemma resolve_lines_filter:
  "resolve_lines w domain found ls =
     found @ filter (\<lambda>full. resolve_a w full = Answer)
               (map (\<lambda>sub. sub @ ''.'' @ domain) (filter (\<lambda>sub. sub \<noteq> []) (map strip ls)))"
  by (induction ls arbitrary: found) (auto simp: Let_def split: dns_outcome.splits)

text \<open>
  Claim C3. When the wordlist is readable (and \<open>dns.resolver.Resolver()\<close>, which
  runs before the file is opened, has not raised) the probe returns, in the order of the
  wordlist, the name \<open>label.domain\<close> of every stripped non-blank line whose lookup
  gave an answer, and of no other: a lookup that fails in any way (no such name, timeout,
  no name server, any other exception) drops its own label only, and every later line is
  still looked up.
\<close>

theorem brute_force_exactly_the_resolved_labels:
  assumes "new_resolver w = None" and "open_read w wordlist = Lines ls"
  shows "\<exists>found. brute_force_subdomains w domain wordlist = Inr found
           \<and> found = filter (\<lambda>full. resolve_a w full = Answer)
                        (map (\<lambda>sub. sub @ ''.'' @ domain)
                           (filter (\<lambda>sub. sub \<noteq> []) (map strip ls)))
           \<and> (\<forall>l \<in> set ls. strip l \<noteq> [] \<longrightarrow>
                 (strip l @ ''.'' @ domain \<in> set found
                    \<longleftrightarrow> resolve_a w (strip l @ ''.'' @ domain) = Answer))"
  using assms by (auto simp: brute_force_subdomains_def resolve_lines_filter)

theorem brute_force_exactly_the_resolved_labels_witness:
  "new_resolver wordlist_env = None
   \<and> open_read wordlist_env default_wordlist = Lines six_lines
   \<and> brute_force_subdomains wordlist_env ''example.com'' default_wordlist
       = Inr [''www.example.com'', ''api.example.com'']"
proof -
  have r: "new_resolver wordlist_env = None"
    by (simp add: wordlist_env_def offline_env_def)
  have f: "open_read wordlist_env default_wordlist = Lines six_lines"
    by (simp add: wordlist_env_def)
  have s: "map strip six_lines = [''www'', [], ''mail'', ''dev'', ''ns'', ''api'']"
    by (simp add: six_lines_def strip_def isspace_def newline_def)
  have a: "\<And>n. resolve_a wordlist_env n =
           (if n = ''www.example.com'' \<or> n = ''api.example.com'' then Answer
            else if n = ''dev.example.com'' then LifetimeTimeout
            else if n = ''ns.example.com'' then NoNameservers
            else NXDOMAIN)"
    by (simp add: wordlist_env_def)
  from brute_force_exactly_the_resolved_labels [OF r f, of "''example.com''"]
  show ?thesis using r f by (auto simp: s a)
qed

text \<open>
  Claim C10. Whatever the probe returns, each of its elements is \<open>label.domain\<close> for
  the stripped, non-blank text \<open>label\<close> of some line of the wordlist it read.
\<close>

theorem brute_force_hosts_are_subdomains:
  assumes "brute_force_subdomains w domain wordlist = Inr found" and "h \<in> set found"
  shows "\<exists>ls. open_read w wordlist = Lines ls
           \<and> (\<exists>l \<in> set ls. strip l \<noteq> [] \<and> h = strip l @ ''.'' @ domain)"
  using assms
  by (auto simp: brute_force_subdomains_def resolve_lines_filter
           split: option.splits file_outcome.splits)

lemma brute_force_wordlist_env:
  "brute_force_subdomains wordlist_env ''example.com'' default_wordlist
     = Inr [''www.example.com'', ''api.example.com'']"
  by code_simp

theorem brute_force_hosts_are_subdomains_witness:
  "brute_force_subdomains wordlist_env ''example.com'' default_wordlist
     = Inr [''www.example.com'', ''api.example.com'']
   \<and> ''api.example.com'' \<in> set [''www.example.com'', ''api.example.com'']
   \<and> (\<exists>ls. open_read wordlist_env default_wordlist = Lines ls
          \<and> (\<exists>l \<in> set ls. strip l \<noteq> [] \<and> ''api.example.com'' = strip l @ ''.'' @ ''example.com''))"
proof -
  have m: "''api.example.com'' \<in> set [''www.example.com'', ''api.example.com'']" by simp
  from brute_force_hosts_are_subdomains [OF brute_force_wordlist_env m]
  show ?thesis using brute_force_wordlist_env m by blast
qed

text \<open>
  Claim C2, evaluated. With no wordlist on the disk the probe returns the empty list,
  as it does with a wordlist none of whose names resolves, and the two scans write the
  same log: nothing tells the caller that the wordlist is missing.
\<close>

theorem missing_wordlist_is_silent:
  "open_read offline_env default_wordlist = NoSuchFile
   \<and> brute_force_subdomains offline_env ''example.com'' default_wordlist = Inr []
   \<and> brute_force_subdomains no_hit_env ''example.com'' default_wordlist = Inr []
   \<and> logs (scan offline_env (only_brute [''example.com'']) fresh_page)
     = [''[12:00:01 UTC] [brute] example.com -> 0'', ''[12:00:02 UTC] Scan completed'']
   \<and> logs (scan no_hit_env (only_brute [''example.com'']) fresh_page)
     = [''[12:00:01 UTC] [brute] example.com -> 0'', ''[12:00:02 UTC] Scan completed'']"
  by code_simp

subsection \<open>The external-tool probe\<close>

text \<open>
  Claim C7. When \<open>Sublist3r/sublist3r.py\<close> does not exist, the probe returns the
  empty list, raises nothing and has called \<open>subprocess.run\<close> not once.
\<close>

theorem sublister_without_script:
  assumes "\<not> path_exists w script_path"
  shows "get_subdomains_sublister w domain = (Inr [], [])"
  using assms by (simp add: get_subdomains_sublister_def)

theorem sublister_without_script_witness:
  "\<not> path_exists offline_env script_path
   \<and> get_subdomains_sublister offline_env ''example.com'' = (Inr [], [])"
proof -
  have h: "\<not> path_exists offline_env script_path" by (simp add: offline_env_def)
  from sublister_without_script [OF h] show ?thesis using h by simp
qed

subsection \<open>The certificate-transparency probe\<close>

text \<open>
  Claim C6. The probe always returns a list; it returns the empty list when the request
  raises, when the status is not 200, when the body is not JSON, and whenever anything
  else in the body of its \<open>try\<close> raises.
\<close>

theorem crtsh_never_raises:
  "(\<exists>names. get_subdomains_crtsh w domain = Inr names)
   \<and> (\<forall>e. http_get w (crtsh_url domain) = Inl e \<longrightarrow> get_subdomains_crtsh w domain = Inr [])
   \<and> (\<forall>r. http_get w (crtsh_url domain) = Inr r \<and> status_code r \<noteq> 200
          \<longrightarrow> get_subdomains_crtsh w domain = Inr [])
   \<and> (\<forall>r e. http_get w (crtsh_url domain) = Inr r \<and> json_body r = Inl e
          \<longrightarrow> get_subdomains_crtsh w domain = Inr [])
   \<and> (\<forall>e. crtsh_try w (crtsh_url domain) = Inl e \<longrightarrow> get_subdomains_crtsh w domain = Inr [])"
  by (auto simp: get_subdomains_crtsh_def crtsh_try_def split: sum.splits)

lemma crtsh_offline: "http_get offline_env (crtsh_url ''example.com'')
    = Inl (PyExn ''ConnectionError'' ''connection refused'')"
  by (simp add: offline_env_def)

lemma serve_http_get: "http_get (serve url r) url = Inr r"
  by (simp add: serve_def)

theorem crtsh_never_raises_witness:
  "http_get offline_env (crtsh_url ''example.com'')
      = Inl (PyExn ''ConnectionError'' ''connection refused'')
   \<and> get_subdomains_crtsh offline_env ''example.com'' = Inr []
   \<and> http_get ct_unavailable_env (crtsh_url ''example.com'')
      = Inr \<lparr>status_code = 503, json_body = Inr ct_two_entries\<rparr>
   \<and> get_subdomains_crtsh ct_unavailable_env ''example.com'' = Inr []
   \<and> http_get ct_garbled_env (crtsh_url ''example.com'')
      = Inr \<lparr>status_code = 200,
             json_body = Inl (PyExn ''JSONDecodeError'' ''Expecting value: line 1 column 1 (char 0)'')\<rparr>
   \<and> get_subdomains_crtsh ct_garbled_env ''example.com'' = Inr []"
proof -
  have u: "http_get ct_unavailable_env (crtsh_url ''example.com'')
      = Inr \<lparr>status_code = 503, json_body = Inr ct_two_entries\<rparr>"
    by (simp add: ct_unavailable_env_def serve_http_get)
  have g: "http_get ct_garbled_env (crtsh_url ''example.com'')
      = Inr \<lparr>status_code = 200,
             json_body = Inl (PyExn ''JSONDecodeError'' ''Expecting value: line 1 column 1 (char 0)'')\<rparr>"
    by (simp add: ct_garbled_env_def serve_http_get)
  have 1: "get_subdomains_crtsh offline_env ''example.com'' = Inr []"
    using crtsh_never_raises [of offline_env "''example.com''"] crtsh_offline by blast
  have 2: "get_subdomains_crtsh ct_unavailable_env ''example.com'' = Inr []"
    using crtsh_never_raises [of ct_unavailable_env "''example.com''"] u by simp
  have 3: "get_subdomains_crtsh ct_garbled_env ''example.com'' = Inr []"
    using crtsh_never_raises [of ct_garbled_env "''example.com''"] g by simp
  show ?thesis using crtsh_offline u g 1 2 3 by blast
qed

lemma set_add_names: "set (add_names acc ps) = set acc \<union> (strip ` set ps - {[]})"
  by (induction ps arbitrary: acc) (auto simp: Let_def set_add_def)

lemma distinct_add_names: "distinct acc \<Longrightarrow> distinct (add_names acc ps)"
  by (induction ps arbitrary: acc) (auto simp: Let_def set_add_def)

lemma name_value_of_Some:
  "name_value_of entry = Some nv \<Longrightarrow>
     \<exists>v. entry_get_name_value entry = Inr v \<and> nv_split v = Inr (split_on newline nv)"
  by (auto simp: name_value_of_def entry_get_name_value_def nv_split_def
           split: json.splits option.splits)

lemma name_value_of_None:
  "name_value_of entry = None \<Longrightarrow>
     (\<exists>e. entry_get_name_value entry = Inl e)
     \<or> (\<exists>v e. entry_get_name_value entry = Inr v \<and> nv_split v = Inl e)"
  by (auto simp: name_value_of_def entry_get_name_value_def nv_split_def
           split: json.splits option.splits)

text \<open>On well-formed entries the outer loop ends with the non-blank pieces added.\<close>

lemma collect_entries_well_formed:
  "those (map name_value_of entries) = Some nvs \<Longrightarrow>
     \<exists>names. collect_entries acc entries = Inr names
       \<and> set names = set acc \<union> (split_trim_dedup nvs - {[]})
       \<and> (distinct acc \<longrightarrow> distinct names)"
proof (induction entries arbitrary: acc nvs)
  case Nil
  then show ?case by (simp add: split_trim_dedup_def)
next
  case (Cons entry entries)
  from Cons.prems obtain nv rest where
    nv: "name_value_of entry = Some nv" and
    rest: "those (map name_value_of entries) = Some rest" and
    nvs: "nvs = nv # rest"
    by (auto split: option.splits)
  from name_value_of_Some [OF nv] obtain v where
    v: "entry_get_name_value entry = Inr v" "nv_split v = Inr (split_on newline nv)"
    by blast
  from Cons.IH [OF rest, of "add_names acc (split_on newline nv)"] obtain names where
    names: "collect_entries (add_names acc (split_on newline nv)) entries = Inr names"
      "set names = set (add_names acc (split_on newline nv)) \<union> (split_trim_dedup rest - {[]})"
      "distinct (add_names acc (split_on newline nv)) \<longrightarrow> distinct names"
    by blast
  have "collect_entries acc (entry # entries) = Inr names"
    by (simp add: v names(1))
  moreover have "set names = set acc \<union> (split_trim_dedup nvs - {[]})"
    using names(2) by (auto simp: nvs set_add_names split_trim_dedup_def)
  moreover have "distinct acc \<longrightarrow> distinct names"
    using names(3) by (simp add: distinct_add_names)
  ultimately show ?case by blast
qed

text \<open>One ill-formed entry, wherever it stands, makes the loop raise.\<close>

lemma collect_entries_ill_formed:
  "those (map name_value_of entries) = None \<Longrightarrow> \<exists>e. collect_entries acc entries = Inl e"
proof (induction entries arbitrary: acc)
  case Nil
  then show ?case by simp
next
  case (Cons entry entries)
  show ?case
  proof (cases "name_value_of entry")
    case None
    from name_value_of_None [OF None] show ?thesis by auto
  next
    case (Some nv)
    with Cons.prems have "those (map name_value_of entries) = None"
      by (auto split: option.splits)
    from Cons.IH [OF this] name_value_of_Some [OF Some] show ?thesis by auto
  qed
qed

lemma collect_entries_strings:
  "\<forall>x \<in> set entries. \<exists>s. x = JString s \<Longrightarrow>
     collect_entries [] entries = Inr [] \<or> (\<exists>e. collect_entries [] entries = Inl e)"
  by (cases entries) (auto simp: entry_get_name_value_def)

lemma crtsh_try_without_name_values:
  assumes h: "http_get w url = Inr r" and n: "name_values r = None"
  shows "crtsh_try w url = Inr [] \<or> (\<exists>e. crtsh_try w url = Inl e)"
proof (cases "status_code r = 200")
  case False
  then show ?thesis using h by (simp add: crtsh_try_def)
next
  case True
  show ?thesis
  proof (cases "json_body r")
    case (Inl e)
    then show ?thesis using h True by (simp add: crtsh_try_def)
  next
    case (Inr data)
    show ?thesis
    proof (cases data)
      case (JArray entries)
      with n True Inr have "those (map name_value_of entries) = None"
        by (simp add: name_values_def)
      from collect_entries_ill_formed [OF this, of "[]"] show ?thesis
        using h True Inr JArray by (auto simp: crtsh_try_def iterate_def)
    next
      case (JObject items)
      from collect_entries_strings [of "map JString (remdups (map fst items))"]
      show ?thesis using h True Inr JObject by (auto simp: crtsh_try_def iterate_def)
    next
      case (JString s)
      from collect_entries_strings [of "map (\<lambda>c. JString [c]) s"]
      show ?thesis using h True Inr JString by (auto simp: crtsh_try_def iterate_def)
    qed (use h True Inr in \<open>simp_all add: crtsh_try_def iterate_def\<close>)
  qed
qed

text \<open>
  Claim C5, as amended. For every response the probe returns a list without repetition.
  Its elements are the pieces of the \<open>name_value\<close> texts, split at the newlines and
  trimmed, that are not empty, when the response has status 200 and its body is an array
  of objects whose \<open>name_value\<close> is absent or a string; for every other response the
  list is empty.
\<close>

theorem crtsh_names_are_the_nonblank_pieces:
  assumes "http_get w (crtsh_url domain) = Inr r"
  shows "\<exists>names. get_subdomains_crtsh w domain = Inr names \<and> distinct names
           \<and> set names = (case name_values r of
                             Some nvs \<Rightarrow> split_trim_dedup nvs - {[]}
                           | None \<Rightarrow> {})"
proof (cases "name_values r")
  case None
  from crtsh_try_without_name_values [OF assms None] show ?thesis
    by (auto simp: get_subdomains_crtsh_def None)
next
  case (Some nvs)
  then obtain entries where
    ok: "status_code r = 200" "json_body r = Inr (JArray entries)"
      "those (map name_value_of entries) = Some nvs"
    by (auto simp: name_values_def split: if_splits sum.splits json.splits)
  from collect_entries_well_formed [OF ok(3), of "[]"] obtain names where
    "collect_entries [] entries = Inr names" "set names = split_trim_dedup nvs - {[]}"
    "distinct names"
    by auto
  then show ?thesis
    using assms ok by (simp add: get_subdomains_crtsh_def crtsh_try_def iterate_def Some)
qed

lemma name_values_two_entries:
  "name_values \<lparr>status_code = 200, json_body = Inr ct_two_entries\<rparr>
     = Some [''a.example.com'' @ [newline] @ ''b.example.com'', ''c.example.com'']"
  by (simp add: name_values_def ct_two_entries_def name_value_of_def)

lemma pieces_two_entries:
  "split_trim_dedup [''a.example.com'' @ [newline] @ ''b.example.com'', ''c.example.com''] - {[]}
     = {''a.example.com'', ''b.example.com'', ''c.example.com''}"
  by code_simp

theorem crtsh_names_are_the_nonblank_pieces_witness:
  "http_get ct_env (crtsh_url ''example.com'')
      = Inr \<lparr>status_code = 200, json_body = Inr ct_two_entries\<rparr>
   \<and> (\<exists>names. get_subdomains_crtsh ct_env ''example.com'' = Inr names \<and> distinct names
          \<and> set names = {''a.example.com'', ''b.example.com'', ''c.example.com''})"
proof -
  have h: "http_get ct_env (crtsh_url ''example.com'')
      = Inr \<lparr>status_code = 200, json_body = Inr ct_two_entries\<rparr>"
    by (simp add: ct_env_def serve_http_get)
  from crtsh_names_are_the_nonblank_pieces [OF h]
  have "\<exists>names. get_subdomains_crtsh ct_env ''example.com'' = Inr names \<and> distinct names
          \<and> set names = {''a.example.com'', ''b.example.com'', ''c.example.com''}"
    by (simp only: name_values_two_entries option.case pieces_two_entries)
  with h show ?thesis by blast
qed

text \<open>
  Claim C5, as it is written, fails on an answer whose \<open>name_value\<close> ends with a
  newline: splitting and trimming leaves the empty piece, which the sentence of the
  specification keeps and the probe drops (\<open>if n:\<close>).
\<close>

theorem crtsh_blank_piece_counterexample:
  "name_values \<lparr>status_code = 200, json_body = Inr ct_trailing_newline\<rparr>
      = Some [''a.example.com'' @ [newline]]
   \<and> get_subdomains_crtsh ct_trailing_env ''example.com'' = Inr [''a.example.com'']
   \<and> [] \<in> split_trim_dedup [''a.example.com'' @ [newline]]
   \<and> set [''a.example.com''] \<noteq> split_trim_dedup [''a.example.com'' @ [newline]]"
proof -
  have 1: "name_values \<lparr>status_code = 200, json_body = Inr ct_trailing_newline\<rparr>
      = Some [''a.example.com'' @ [newline]]"
    by (simp add: name_values_def ct_trailing_newline_def name_value_of_def)
  have 2: "get_subdomains_crtsh ct_trailing_env ''example.com'' = Inr [''a.example.com'']"
    by code_simp
  have 3: "[] \<in> split_trim_dedup [''a.example.com'' @ [newline]]"
    by code_simp
  have 4: "set [''a.example.com''] \<noteq> split_trim_dedup [''a.example.com'' @ [newline]]"
    using 3 by auto
  show ?thesis using 1 2 3 4 by blast
qed

subsection \<open>The progress counter\<close>

lemma log_done_count [simp]: "done_count (log w msg s) = done_count s"
  by (simp add: log_def)

lemma log_total_tasks [simp]: "total_tasks (log w msg s) = total_tasks s"
  by (simp add: log_def)

lemma handle_task_done_count: "done_count (handle_task w t s) = Suc (done_count s)"
  by (cases t) (simp add: handle_task_def Let_def split: sum.splits prod.splits)

lemma handle_task_total_tasks: "total_tasks (handle_task w t s) = total_tasks s"
  by (cases t) (simp add: handle_task_def Let_def split: sum.splits prod.splits)

lemma handle_tasks_done_count:
  "done_count (handle_tasks w ts s) = done_count s + length ts"
  by (induction ts arbitrary: s) (simp_all add: handle_task_done_count)

lemma handle_tasks_total_tasks: "total_tasks (handle_tasks w ts s) = total_tasks s"
  by (induction ts arbitrary: s) (simp_all add: handle_task_total_tasks)

lemma schedule_tasks_length:
  "length (fst (schedule_tasks w cfg (tasks, k) d)) = length tasks + enabled_count cfg"
  by (simp add: schedule_tasks_def enabled_count_def Let_def)

lemma schedule_tasks_count:
  "snd (schedule_tasks w cfg (tasks, k) d) = k + enabled_count cfg"
  by (simp add: schedule_tasks_def enabled_count_def Let_def)

lemma foldl_schedule_tasks:
  "length (fst (foldl (schedule_tasks w cfg) acc ds))
     = length (fst acc) + length ds * enabled_count cfg
   \<and> snd (foldl (schedule_tasks w cfg) acc ds) = snd acc + length ds * enabled_count cfg"
proof (induction ds arbitrary: acc)
  case Nil
  then show ?case by simp
next
  case (Cons d ds)
  obtain tasks k where acc: "acc = (tasks, k)" by (cases acc)
  show ?case
    using Cons.IH [of "schedule_tasks w cfg acc d"]
    by (simp add: acc schedule_tasks_length schedule_tasks_count)
qed

lemma build_tasks_length:
  "length (fst (build_tasks w cfg)) = length (domains cfg) * enabled_count cfg"
  using foldl_schedule_tasks [of w cfg "([], 0)" "domains cfg"] by (simp add: build_tasks_def)

lemma build_tasks_count:
  "snd (build_tasks w cfg) = length (domains cfg) * enabled_count cfg"
  using foldl_schedule_tasks [of w cfg "([], 0)" "domains cfg"] by (simp add: build_tasks_def)

lemma second_block_done_count:
  "done_count (second_block w cfg s) = length (domains cfg) * enabled_count cfg"
  using build_tasks_length [of w cfg]
  by (auto simp add: second_block_def Let_def handle_tasks_done_count split: prod.splits)

text \<open>
  Claim C4. When the scan has run, the variable \<open>done\<close> equals the number of domains
  times the number of enabled probes, which is also the final \<open>total_tasks\<close>; every
  iteration of the loop over the tasks adds one to it, whether the future holds a value
  or an exception.
\<close>

theorem progress_counter_reaches_total:
  "done_count (scan w cfg s) = length (domains cfg) * enabled_count cfg
   \<and> done_count (scan w cfg s) = total_tasks (scan w cfg s)
   \<and> (\<forall>t s'. done_count (handle_task w t s') = done_count s' + 1)"
proof -
  have d: "done_count (scan w cfg s) = length (domains cfg) * enabled_count cfg"
    by (simp add: scan_def Let_def second_block_done_count)
  have t: "total_tasks (scan w cfg s) = length (domains cfg) * enabled_count cfg"
    using build_tasks_count [of w cfg]
    by (auto simp add: scan_def second_block_def Let_def handle_tasks_total_tasks
          split: prod.splits)
  show ?thesis using d t by (simp add: handle_task_done_count)
qed

subsection \<open>The two scheduling blocks\<close>

text \<open>The second block is its two resets followed by the corrected block.\<close>

lemma second_block_resets_first:
  "second_block w cfg s = corrected_block w cfg (s\<lparr>logs := [], results := {}\<rparr>)"
  by (simp add: second_block_def corrected_block_def)


subsection \<open>The log of a scan\<close>

text \<open>
  Claim C1, evaluated. A scan whose only task raises ends with two entries of that task
  (the error entry, then the zero-result entry) and the end entry; a scan whose only task
  succeeds ends with the entry of the task and the end entry; a scan of two domains ends
  with the entries of its tasks in the order of the task list. None of the three logs
  holds an entry \<open>Scan started\<close>: line 189 empties the log after line 175 wrote it.
\<close>

theorem scan_log_of_a_failed_task:
  "logs (scan unreadable_env (only_brute [''example.com'']) fresh_page)
     = [''[12:00:01 UTC] ERROR brute example.com: '' @ permission_denied,
        ''[12:00:02 UTC] [brute] example.com -> 0'',
        ''[12:00:03 UTC] Scan completed'']
   \<and> logs (scan ct_env (only_crtsh [''example.com'']) fresh_page)
     = [''[12:00:01 UTC] [crtsh] example.com -> 3 new subdomains'',
        ''[12:00:02 UTC] Scan completed'']
   \<and> logs (scan wordlist_env (only_brute [''x.com'', ''example.com'']) fresh_page)
     = [''[12:00:01 UTC] [brute] x.com -> 0'',
        ''[12:00:02 UTC] [brute] example.com -> 2 new subdomains'',
        ''[12:00:03 UTC] Scan completed'']"
  by code_simp

end
